theory Spec2Isabelle
  imports Complex_Main
begin

section \<open>Numbers\<close>

text \<open>
  The script computes with Python numbers. They are taken here as real numbers, so that
  the linear program built by \<^verbatim>\<open>schedule_simple_battery\<close> is the mathematical one.
\<close>

section \<open>The SoC projection\<close>

text \<open>
  \<^verbatim>\<open>np.cumsum\<close>: the running sums of a sequence, one per element, accumulated from the
  left.
\<close>

fun cumsum_from :: "real \<Rightarrow> real list \<Rightarrow> real list" where
  "cumsum_from acc [] = []"
| "cumsum_from acc (x # xs) = (acc + x) # cumsum_from (acc + x) xs"

definition cumsum :: "real list \<Rightarrow> real list" where
  "cumsum xs = cumsum_from 0 xs"

text \<open>
  \<^verbatim>\<open>return [soc_start] + list(np.cumsum(power_schedule) + soc_start)\<close>
\<close>

definition compute_soc_schedule :: "real list \<Rightarrow> real \<Rightarrow> real list" where
  "compute_soc_schedule power_schedule soc_start =
     [soc_start] @ map (\<lambda>c. c + soc_start) (cumsum power_schedule)"

section \<open>The optimisation model\<close>

datatype py_error = ZeroDivisionError

text \<open>One row of the price frame: the columns \<^verbatim>\<open>consumption\<close> and \<^verbatim>\<open>production\<close>.\<close>

record price_row =
  consumption :: real
  production :: real

type_synonym prices = "price_row list"

datatype domain = Reals_domain | NonNegativeReals | NonPositiveReals

fun in_domain :: "domain \<Rightarrow> real \<Rightarrow> bool" where
  "in_domain Reals_domain x = True"
| "in_domain NonNegativeReals x = (0 \<le> x)"
| "in_domain NonPositiveReals x = (x \<le> 0)"

text \<open>
  The state of the \<^verbatim>\<open>ConcreteModel\<close>: its index set, the current values of its three
  indexed variables with their domains, and its four indexed parameters.
\<close>

record model =
  model_j :: "nat list"
  ems_power :: "nat \<Rightarrow> real"
  ems_power_domain :: domain
  device_power_down :: "nat \<Rightarrow> real"
  device_power_down_domain :: domain
  device_power_up :: "nat \<Rightarrow> real"
  device_power_up_domain :: domain
  up_price :: "nat \<Rightarrow> real"
  down_price :: "nat \<Rightarrow> real"
  device_max :: "nat \<Rightarrow> real"
  device_min :: "nat \<Rightarrow> real"

definition price_up_select :: "prices \<Rightarrow> nat \<Rightarrow> real" where
  "price_up_select prices j = consumption (prices ! j)"

definition price_down_select :: "prices \<Rightarrow> nat \<Rightarrow> real" where
  "price_down_select prices j = production (prices ! j)"

text \<open>
  Lines 69 to 85 of the script: the index set \<^verbatim>\<open>RangeSet(0, len(prices) - 1)\<close>, the
  variables created with \<^verbatim>\<open>initialize=0\<close>, and the parameters.
\<close>

definition new_model :: "prices \<Rightarrow> real \<Rightarrow> real \<Rightarrow> model" where
  "new_model prices soc_max soc_min =
     \<lparr> model_j = [0 ..< length prices],
       ems_power = (\<lambda>j. 0),
       ems_power_domain = Reals_domain,
       device_power_down = (\<lambda>j. 0),
       device_power_down_domain = NonPositiveReals,
       device_power_up = (\<lambda>j. 0),
       device_power_up_domain = NonNegativeReals,
       up_price = price_up_select prices,
       down_price = price_down_select prices,
       device_max = (\<lambda>j. soc_max),
       device_min = (\<lambda>j. soc_min) \<rparr>"

text \<open>
  A constraint rule returns a triple \<open>(lower, body, upper)\<close>, which the modelling
  library reads as \<open>lower \<le> body \<le> upper\<close>.
\<close>

fun satisfied :: "real \<times> real \<times> real \<Rightarrow> bool" where
  "satisfied (lower, body, upper) = (lower \<le> body \<and> body \<le> upper)"

definition ems_derivative_bounds :: "real \<Rightarrow> model \<Rightarrow> nat \<Rightarrow> real \<times> real \<times> real" where
  "ems_derivative_bounds power_capacity m j =
     (- power_capacity, ems_power m j, power_capacity)"

definition stock_changes :: "real \<Rightarrow> model \<Rightarrow> nat \<Rightarrow> real list" where
  "stock_changes conversion_efficiency m j =
     map (\<lambda>k. device_power_down m k / conversion_efficiency
              + device_power_up m k * conversion_efficiency) [0 ..< j + 1]"

definition device_bounds ::
  "prices \<Rightarrow> real \<Rightarrow> real \<Rightarrow> real \<Rightarrow> model \<Rightarrow> nat \<Rightarrow> real \<times> real \<times> real" where
  "device_bounds prices soc_start soc_target conversion_efficiency m j =
     (if int j = int (length prices) - 1
      then (soc_target,
            soc_start + sum_list (stock_changes conversion_efficiency m j),
            soc_target)
      else (device_min m j,
            soc_start + sum_list (stock_changes conversion_efficiency m j),
            device_max m j))"

definition device_derivative_equalities :: "model \<Rightarrow> nat \<Rightarrow> real \<times> real \<times> real" where
  "device_derivative_equalities m j =
     (0, device_power_up m j + device_power_down m j - ems_power m j, 0)"

text \<open>The loop of \<^verbatim>\<open>cost_function\<close>: two additions to \<^verbatim>\<open>costs\<close> per index.\<close>

definition cost_function :: "model \<Rightarrow> real" where
  "cost_function m =
     fold (\<lambda>j costs. (costs + device_power_down m j * down_price m j)
                        + device_power_up m j * up_price m j)
          (model_j m) 0"

datatype sense = minimize | maximize

definition costs_sense :: sense where
  "costs_sense = minimize"

text \<open>
  The constraints the script attaches to the model (lines 126 to 128), each rule over
  every index of \<^verbatim>\<open>model.j\<close>, together with the domains of the variables.
\<close>

definition device_power_up_bounds :: "real \<Rightarrow> model \<Rightarrow> bool" where
  "device_power_up_bounds power_capacity m =
     list_all (\<lambda>j. satisfied (ems_derivative_bounds power_capacity m j)) (model_j m)"

definition device_power_equalities :: "model \<Rightarrow> bool" where
  "device_power_equalities m =
     list_all (\<lambda>j. satisfied (device_derivative_equalities m j)) (model_j m)"

definition device_energy_bounds :: "prices \<Rightarrow> real \<Rightarrow> real \<Rightarrow> real \<Rightarrow> model \<Rightarrow> bool" where
  "device_energy_bounds prices soc_start soc_target conversion_efficiency m =
     list_all (\<lambda>j. satisfied (device_bounds prices soc_start soc_target conversion_efficiency m j))
       (model_j m)"

definition domains_hold :: "model \<Rightarrow> bool" where
  "domains_hold m =
     list_all (\<lambda>j. in_domain (ems_power_domain m) (ems_power m j)
                  \<and> in_domain (device_power_down_domain m) (device_power_down m j)
                  \<and> in_domain (device_power_up_domain m) (device_power_up m j)) (model_j m)"

definition feasible :: "prices \<Rightarrow> real \<Rightarrow> real \<Rightarrow> real \<Rightarrow> real \<Rightarrow> model \<Rightarrow> bool" where
  "feasible prices soc_start soc_target power_capacity conversion_efficiency m =
     (domains_hold m
      \<and> device_power_up_bounds power_capacity m
      \<and> device_power_equalities m
      \<and> device_energy_bounds prices soc_start soc_target conversion_efficiency m)"

section \<open>Solving and reading the result back\<close>

text \<open>
  The solver is external. What it returns is a termination condition and a list of
  solution candidates, each a value for every variable.
\<close>

datatype termination_condition = optimal | infeasible | unbounded | infeasibleOrUnbounded | other

record solution =
  sol_ems_power :: "nat \<Rightarrow> real"
  sol_device_power_down :: "nat \<Rightarrow> real"
  sol_device_power_up :: "nat \<Rightarrow> real"

record results =
  solver_termination_condition :: termination_condition
  results_solution :: "solution list"

text \<open>\<^verbatim>\<open>model.solutions.load_from(results)\<close> binds the variables to the first candidate.\<close>

definition load_solution :: "model \<Rightarrow> solution \<Rightarrow> model" where
  "load_solution m s =
     m \<lparr> ems_power := sol_ems_power s,
         device_power_down := sol_device_power_down s,
         device_power_up := sol_device_power_up s \<rparr>"

fun load_from :: "model \<Rightarrow> results \<Rightarrow> model" where
  "load_from m r = (case results_solution r of [] \<Rightarrow> m | s # _ \<Rightarrow> load_solution m s)"

text \<open>
  \<^verbatim>\<open>schedule_simple_battery\<close>. The first argument is what the external solver returns
  for the constructed model. The rule \<^verbatim>\<open>device_bounds\<close> divides by the conversion
  efficiency for every index of the model, so a zero efficiency raises while the model is
  built, when there is at least one step. The result carries what was printed, then the
  returned pair.
\<close>

definition schedule_simple_battery ::
  "results \<Rightarrow> prices \<Rightarrow> real \<Rightarrow> real \<Rightarrow> real \<Rightarrow> real \<Rightarrow> real \<Rightarrow> real
     \<Rightarrow> py_error + (termination_condition list \<times> real \<times> real list)" where
  "schedule_simple_battery res prices soc_start soc_max soc_min soc_target
       power_capacity conversion_efficiency =
     (if prices \<noteq> [] \<and> conversion_efficiency = 0 then Inl ZeroDivisionError
      else
        let m = new_model prices soc_max soc_min;
            printed = [solver_termination_condition res];
            m' = (if length (results_solution res) > 0 then load_from m res else m);
            planned_costs = cost_function m';
            planned_device_power = map (\<lambda>j. ems_power m' j) (model_j m')
        in Inr (printed, planned_costs, planned_device_power))"

text \<open>
  What the solver is asked for: among the values of the variables that satisfy every
  constraint of the constructed model, one of least cost.
\<close>

definition model_with ::
  "prices \<Rightarrow> real \<Rightarrow> real \<Rightarrow> solution \<Rightarrow> model" where
  "model_with prices soc_max soc_min s = load_solution (new_model prices soc_max soc_min) s"

definition feasible_solution ::
  "prices \<Rightarrow> real \<Rightarrow> real \<Rightarrow> real \<Rightarrow> real \<Rightarrow> real \<Rightarrow> real \<Rightarrow> solution \<Rightarrow> bool" where
  "feasible_solution prices soc_start soc_max soc_min soc_target power_capacity
       conversion_efficiency s =
     feasible prices soc_start soc_target power_capacity conversion_efficiency
       (model_with prices soc_max soc_min s)"

definition objective_value :: "prices \<Rightarrow> real \<Rightarrow> real \<Rightarrow> solution \<Rightarrow> real" where
  "objective_value prices soc_max soc_min s = cost_function (model_with prices soc_max soc_min s)"

fun no_worse :: "sense \<Rightarrow> real \<Rightarrow> real \<Rightarrow> bool" where
  "no_worse minimize a b = (a \<le> b)"
| "no_worse maximize a b = (b \<le> a)"

definition optimal_solution ::
  "prices \<Rightarrow> real \<Rightarrow> real \<Rightarrow> real \<Rightarrow> real \<Rightarrow> real \<Rightarrow> real \<Rightarrow> solution \<Rightarrow> bool" where
  "optimal_solution prices soc_start soc_max soc_min soc_target power_capacity
       conversion_efficiency s =
     (feasible_solution prices soc_start soc_max soc_min soc_target power_capacity
        conversion_efficiency s
      \<and> (\<forall>s'. feasible_solution prices soc_start soc_max soc_min soc_target power_capacity
                conversion_efficiency s'
              \<longrightarrow> no_worse costs_sense (objective_value prices soc_max soc_min s)
                    (objective_value prices soc_max soc_min s')))"

text \<open>
  The running state of charge after step \<open>j\<close>, written as a sum over the steps up to
  \<open>j\<close>: the body of the constraint that \<^verbatim>\<open>device_bounds\<close> returns.
\<close>

definition running_soc :: "real \<Rightarrow> real \<Rightarrow> solution \<Rightarrow> nat \<Rightarrow> real" where
  "running_soc soc_start conversion_efficiency s j =
     soc_start + (\<Sum>k\<le>j. sol_device_power_down s k / conversion_efficiency
                          + sol_device_power_up s k * conversion_efficiency)"

text \<open>Every production price lowered by the same amount, the consumption prices kept.\<close>

definition decrease_sell :: "real \<Rightarrow> prices \<Rightarrow> prices" where
  "decrease_sell delta prices = map (\<lambda>r. r \<lparr> production := production r - delta \<rparr>) prices"

section \<open>Example inputs\<close>

definition one_row :: prices where
  "one_row = [\<lparr>consumption = 8, production = 7\<rparr>]"

definition two_rows :: prices where
  "two_rows = [\<lparr>consumption = 8, production = 7\<rparr>, \<lparr>consumption = 3, production = 2\<rparr>]"

definition cheap_buy_row :: prices where
  "cheap_buy_row = [\<lparr>consumption = 1, production = 2\<rparr>]"

definition zero_solution :: solution where
  "zero_solution = \<lparr>sol_ems_power = (\<lambda>j. 0), sol_device_power_down = (\<lambda>j. 0),
                     sol_device_power_up = (\<lambda>j. 0)\<rparr>"

definition charge_five :: solution where
  "charge_five = \<lparr>sol_ems_power = (\<lambda>j. 5), sol_device_power_down = (\<lambda>j. 0),
                   sol_device_power_up = (\<lambda>j. 5)\<rparr>"

definition discharge_ten :: solution where
  "discharge_ten = \<lparr>sol_ems_power = (\<lambda>j. - 10), sol_device_power_down = (\<lambda>j. - 10),
                     sol_device_power_up = (\<lambda>j. 0)\<rparr>"

text \<open>Charging and discharging in the same step: \<open>c\<close> in, \<open>d\<close> out.\<close>

definition both_ways :: "real \<Rightarrow> real \<Rightarrow> solution" where
  "both_ways c d = \<lparr>sol_ems_power = (\<lambda>j. c - d), sol_device_power_down = (\<lambda>j. - d),
                     sol_device_power_up = (\<lambda>j. c)\<rparr>"

section \<open>The SoC projection: properties\<close>

lemma length_cumsum_from: "length (cumsum_from acc xs) = length xs"
  by (induction xs arbitrary: acc) simp_all

lemma nth_cumsum_from:
  "k < length xs \<Longrightarrow> cumsum_from acc xs ! k = acc + sum_list (take (Suc k) xs)"
proof (induction xs arbitrary: acc k)
  case Nil
  then show ?case by simp
next
  case (Cons x xs)
  show ?case
  proof (cases k)
    case 0
    then show ?thesis by simp
  next
    case (Suc n)
    with Cons.prems have "n < length xs" by simp
    from Cons.IH [OF this, of "acc + x"] Suc show ?thesis by (simp add: add.assoc)
  qed
qed

lemma last_compute_soc_schedule:
  "last (compute_soc_schedule p s) = s + sum_list p"
proof (cases p rule: rev_cases)
  case Nil
  then show ?thesis by (simp add: compute_soc_schedule_def cumsum_def)
next
  case (snoc ys y)
  then have len: "length p = Suc (length ys)" by simp
  have ne: "cumsum_from 0 p \<noteq> []"
    using len length_cumsum_from [of 0 p] by auto
  have "last (cumsum_from 0 p) = cumsum_from 0 p ! length ys"
    using len length_cumsum_from [of 0 p] ne by (simp add: last_conv_nth)
  also have "\<dots> = 0 + sum_list (take (Suc (length ys)) p)"
    using len by (intro nth_cumsum_from) simp
  also have "\<dots> = sum_list p" using len by simp
  finally show ?thesis using ne
    by (simp add: compute_soc_schedule_def cumsum_def last_map)
qed

text \<open>
  C6. For every power schedule \<open>p\<close> and starting SoC \<open>s\<close>, the projection has
  \<open>length p + 1\<close> elements, its element 0 is \<open>s\<close>, its element \<open>k\<close> is
  \<open>s\<close> plus the sum of the first \<open>k\<close> powers for every \<open>k\<close> from 1 to
  \<open>length p\<close>, and the empty schedule gives \<open>[s]\<close>. The function is total: there
  is no input on which it fails.
\<close>

theorem compute_soc_schedule_spec:
  "length (compute_soc_schedule p s) = length p + 1
   \<and> compute_soc_schedule p s ! 0 = s
   \<and> (\<forall>k. 1 \<le> k \<and> k \<le> length p \<longrightarrow>
          compute_soc_schedule p s ! k = s + sum_list (take k p))
   \<and> compute_soc_schedule [] s = [s]"
proof (intro conjI allI impI)
  show "length (compute_soc_schedule p s) = length p + 1"
    by (simp add: compute_soc_schedule_def cumsum_def length_cumsum_from)
  show "compute_soc_schedule p s ! 0 = s"
    by (simp add: compute_soc_schedule_def)
  show "compute_soc_schedule [] s = [s]"
    by (simp add: compute_soc_schedule_def cumsum_def)
next
  fix k
  assume k: "1 \<le> k \<and> k \<le> length p"
  then obtain n where n: "k = Suc n" "n < length p"
    by (cases k) auto
  then show "compute_soc_schedule p s ! k = s + sum_list (take k p)"
    by (simp add: compute_soc_schedule_def cumsum_def length_cumsum_from nth_cumsum_from)
qed

theorem compute_soc_schedule_spec_witness:
  "(1::nat) \<le> 2 \<and> 2 \<le> length [5, -2, 3 :: real]
   \<and> length (compute_soc_schedule [5, -2, 3] 20) = 4
   \<and> compute_soc_schedule [5, -2, 3] 20 ! 2 = 20 + sum_list (take 2 [5, -2, 3])
   \<and> compute_soc_schedule [5, -2, 3] 20 ! 2 = 23"
  using compute_soc_schedule_spec [of "[5, -2, 3]" 20]
  by (simp add: compute_soc_schedule_def cumsum_def)

section \<open>The constructed model: constraints and objective\<close>

lemma fold_costs_sum:
  "fold (\<lambda>j costs. (costs + f j) + g j) js a = a + (\<Sum>j\<leftarrow>js. f j + g j)"
  for a :: real
  by (induction js arbitrary: a) (simp_all add: algebra_simps)

lemma cost_function_sum_list:
  "cost_function m =
     (\<Sum>j\<leftarrow>model_j m. device_power_down m j * down_price m j + device_power_up m j * up_price m j)"
  by (simp add: cost_function_def fold_costs_sum)

lemma sum_list_upt_lessThan: "(\<Sum>j\<leftarrow>[0 ..< n]. f j) = (\<Sum>j<n. f j)" for f :: "nat \<Rightarrow> real"
  by (simp add: interv_sum_list_conv_sum_set_nat atLeast0LessThan)

lemma sum_list_stock_changes:
  "sum_list (stock_changes conversion_efficiency m j) =
     (\<Sum>k\<le>j. device_power_down m k / conversion_efficiency + device_power_up m k * conversion_efficiency)"
proof -
  have "sum_list (stock_changes conversion_efficiency m j) =
     (\<Sum>k<Suc j. device_power_down m k / conversion_efficiency + device_power_up m k * conversion_efficiency)"
    unfolding stock_changes_def Suc_eq_plus1 [symmetric] by (rule sum_list_upt_lessThan)
  then show ?thesis by (simp only: lessThan_Suc_atMost)
qed

lemma model_with_simps:
  "model_j (model_with prices soc_max soc_min s) = [0 ..< length prices]"
  "ems_power (model_with prices soc_max soc_min s) = sol_ems_power s"
  "device_power_down (model_with prices soc_max soc_min s) = sol_device_power_down s"
  "device_power_up (model_with prices soc_max soc_min s) = sol_device_power_up s"
  "ems_power_domain (model_with prices soc_max soc_min s) = Reals_domain"
  "device_power_down_domain (model_with prices soc_max soc_min s) = NonPositiveReals"
  "device_power_up_domain (model_with prices soc_max soc_min s) = NonNegativeReals"
  "up_price (model_with prices soc_max soc_min s) = price_up_select prices"
  "down_price (model_with prices soc_max soc_min s) = price_down_select prices"
  "device_max (model_with prices soc_max soc_min s) = (\<lambda>j. soc_max)"
  "device_min (model_with prices soc_max soc_min s) = (\<lambda>j. soc_min)"
  by (simp_all add: model_with_def load_solution_def new_model_def)

lemma list_all_upt: "list_all P [0 ..< n] = (\<forall>j<n. P j)"
  by (auto simp add: list_all_iff)

lemma domains_hold_iff:
  "domains_hold (model_with prices soc_max soc_min s) \<longleftrightarrow>
     (\<forall>j<length prices. sol_device_power_down s j \<le> 0 \<and> 0 \<le> sol_device_power_up s j)"
  by (simp add: domains_hold_def model_with_simps list_all_upt)

lemma device_power_up_bounds_iff:
  "device_power_up_bounds power_capacity (model_with prices soc_max soc_min s) \<longleftrightarrow>
     (\<forall>j<length prices. - power_capacity \<le> sol_ems_power s j \<and> sol_ems_power s j \<le> power_capacity)"
  by (simp add: device_power_up_bounds_def model_with_simps list_all_upt ems_derivative_bounds_def)

lemma device_power_equalities_iff:
  "device_power_equalities (model_with prices soc_max soc_min s) \<longleftrightarrow>
     (\<forall>j<length prices. sol_ems_power s j = sol_device_power_up s j + sol_device_power_down s j)"
  by (auto simp add: device_power_equalities_def model_with_simps list_all_upt
        device_derivative_equalities_def)

lemma device_bounds_model_with:
  "device_bounds prices soc_start soc_target conversion_efficiency (model_with prices soc_max soc_min s) j =
     (if Suc j = length prices then (soc_target, running_soc soc_start conversion_efficiency s j, soc_target)
      else (soc_min, running_soc soc_start conversion_efficiency s j, soc_max))"
proof -
  have "(int j = int (length prices) - 1) = (Suc j = length prices)" by auto
  then show ?thesis
    by (simp only: device_bounds_def sum_list_stock_changes model_with_simps running_soc_def)
qed

lemma device_energy_bounds_iff:
  "device_energy_bounds prices soc_start soc_target conversion_efficiency (model_with prices soc_max soc_min s) \<longleftrightarrow>
     (\<forall>j<length prices.
        if Suc j = length prices then running_soc soc_start conversion_efficiency s j = soc_target
        else soc_min \<le> running_soc soc_start conversion_efficiency s j \<and> running_soc soc_start conversion_efficiency s j \<le> soc_max)"
  unfolding device_energy_bounds_def device_bounds_model_with model_with_simps list_all_upt
  by (rule all_cong) auto

lemma feasible_solution_iff:
  "feasible_solution prices soc_start soc_max soc_min soc_target power_capacity conversion_efficiency s \<longleftrightarrow>
     (\<forall>j<length prices. sol_device_power_down s j \<le> 0 \<and> 0 \<le> sol_device_power_up s j)
     \<and> (\<forall>j<length prices. - power_capacity \<le> sol_ems_power s j \<and> sol_ems_power s j \<le> power_capacity)
     \<and> (\<forall>j<length prices. sol_ems_power s j = sol_device_power_up s j + sol_device_power_down s j)
     \<and> (\<forall>j<length prices.
          if Suc j = length prices then running_soc soc_start conversion_efficiency s j = soc_target
          else soc_min \<le> running_soc soc_start conversion_efficiency s j \<and> running_soc soc_start conversion_efficiency s j \<le> soc_max)"
  by (simp only: feasible_solution_def feasible_def domains_hold_iff device_power_up_bounds_iff
        device_power_equalities_iff device_energy_bounds_iff)

text \<open>
  C1. In the constructed model, for every step \<open>j\<close> before the final one, the constraint
  that \<^verbatim>\<open>device_bounds\<close> returns is \<open>soc_min \<le> running SoC \<le> soc_max\<close>, the
  running SoC being \<open>soc_start\<close> plus the sum over \<open>k = 0..j\<close> of the discharge over the
  efficiency plus the charge times the efficiency; so every feasible solution keeps it
  within these bounds.
\<close>

theorem soc_within_bounds_before_final:
  assumes "conversion_efficiency \<noteq> 0"
    and "j + 1 < length prices"
  shows "device_bounds prices soc_start soc_target conversion_efficiency
           (model_with prices soc_max soc_min s) j
         = (soc_min,
            soc_start + (\<Sum>k\<le>j. sol_device_power_down s k / conversion_efficiency
                                + sol_device_power_up s k * conversion_efficiency),
            soc_max)
       \<and> (feasible_solution prices soc_start soc_max soc_min soc_target power_capacity
             conversion_efficiency s
           \<longrightarrow> soc_min \<le> soc_start + (\<Sum>k\<le>j. sol_device_power_down s k / conversion_efficiency
                                + sol_device_power_up s k * conversion_efficiency)
             \<and> soc_start + (\<Sum>k\<le>j. sol_device_power_down s k / conversion_efficiency
                                + sol_device_power_up s k * conversion_efficiency) \<le> soc_max)"
proof (intro conjI impI)
  from assms(2) have ne: "Suc j \<noteq> length prices" and lt: "j < length prices" by simp_all
  from ne show "device_bounds prices soc_start soc_target conversion_efficiency
           (model_with prices soc_max soc_min s) j
         = (soc_min,
            soc_start + (\<Sum>k\<le>j. sol_device_power_down s k / conversion_efficiency
                                + sol_device_power_up s k * conversion_efficiency),
            soc_max)"
    by (simp add: device_bounds_model_with running_soc_def)
  assume "feasible_solution prices soc_start soc_max soc_min soc_target power_capacity
             conversion_efficiency s"
  then have "\<forall>j<length prices.
          if Suc j = length prices then running_soc soc_start conversion_efficiency s j = soc_target
          else soc_min \<le> running_soc soc_start conversion_efficiency s j
             \<and> running_soc soc_start conversion_efficiency s j \<le> soc_max"
    unfolding feasible_solution_iff by blast
  with ne lt have b: "soc_min \<le> running_soc soc_start conversion_efficiency s j
             \<and> running_soc soc_start conversion_efficiency s j \<le> soc_max"
    by metis
  from b show "soc_min \<le> soc_start + (\<Sum>k\<le>j. sol_device_power_down s k / conversion_efficiency
                                + sol_device_power_up s k * conversion_efficiency)"
    by (simp add: running_soc_def)
  from b show "soc_start + (\<Sum>k\<le>j. sol_device_power_down s k / conversion_efficiency
                                + sol_device_power_up s k * conversion_efficiency) \<le> soc_max"
    by (simp add: running_soc_def)
qed

lemma feasible_charge_five: "feasible_solution two_rows 20 90 10 30 10 1 charge_five"
  by (simp add: feasible_solution_def feasible_def domains_hold_def device_power_up_bounds_def
       device_power_equalities_def device_energy_bounds_def model_with_simps two_rows_def
       charge_five_def ems_derivative_bounds_def device_derivative_equalities_def
       device_bounds_def stock_changes_def upt_rec)

theorem soc_within_bounds_before_final_witness:
  "(1::real) \<noteq> 0 \<and> (0::nat) + 1 < length two_rows
   \<and> feasible_solution two_rows 20 90 10 30 10 1 charge_five
   \<and> (10::real) \<le> 20 + (\<Sum>k\<le>(0::nat). sol_device_power_down charge_five k / 1
                                + sol_device_power_up charge_five k * 1)
   \<and> (20::real) + (\<Sum>k\<le>(0::nat). sol_device_power_down charge_five k / 1
                                + sol_device_power_up charge_five k * 1) \<le> 90"
  using soc_within_bounds_before_final [where conversion_efficiency = 1 and j = 0
      and prices = two_rows and soc_start = 20 and soc_max = 90 and soc_min = 10
      and soc_target = 30 and power_capacity = 10 and s = charge_five]
    feasible_charge_five
  by (simp add: two_rows_def)

lemma objective_value_sum:
  "objective_value prices soc_max soc_min s =
     (\<Sum>j<length prices. sol_device_power_down s j * production (prices ! j)
                         + sol_device_power_up s j * consumption (prices ! j))"
  by (simp only: objective_value_def cost_function_sum_list model_with_simps
        sum_list_upt_lessThan price_up_select_def price_down_select_def)

text \<open>
  C4. The objective of the constructed model is the sum over all steps of the discharge
  times the production (sell) price plus the charge times the consumption (buy) price, and
  its sense is minimisation.
\<close>

theorem objective_is_priced_sum:
  "cost_function (model_with prices soc_max soc_min s) =
     (\<Sum>j<length prices. sol_device_power_down s j * production (prices ! j)
                         + sol_device_power_up s j * consumption (prices ! j))
   \<and> costs_sense = minimize"
  using objective_value_sum [of prices soc_max soc_min s]
  by (simp add: objective_value_def costs_sense_def)

lemma schedule_simple_battery_loaded:
  assumes "prices = [] \<or> conversion_efficiency \<noteq> 0"
    and "results_solution res = s # ss"
  shows "schedule_simple_battery res prices soc_start soc_max soc_min soc_target
           power_capacity conversion_efficiency
         = Inr ([solver_termination_condition res],
                objective_value prices soc_max soc_min s,
                map (sol_ems_power s) [0 ..< length prices])"
  using assms
  by (auto simp add: schedule_simple_battery_def Let_def objective_value_def model_with_def
        load_solution_def new_model_def)

lemma schedule_simple_battery_not_loaded:
  assumes "prices = [] \<or> conversion_efficiency \<noteq> 0"
    and "results_solution res = []"
  shows "schedule_simple_battery res prices soc_start soc_max soc_min soc_target
           power_capacity conversion_efficiency
         = Inr ([solver_termination_condition res],
                cost_function (new_model prices soc_max soc_min),
                map (ems_power (new_model prices soc_max soc_min)) [0 ..< length prices])"
  using assms
  by (auto simp add: schedule_simple_battery_def Let_def new_model_def)

lemma cost_function_new_model: "cost_function (new_model prices soc_max soc_min) = 0"
  by (simp add: cost_function_sum_list new_model_def)

lemma map_zero_replicate: "map (\<lambda>j. 0::real) [0 ..< n] = replicate n 0"
  by (simp add: map_replicate_const)

section \<open>The terminal constraint and the SoC projection\<close>

lemma length_compute_soc_schedule: "length (compute_soc_schedule p s) = Suc (length p)"
  by (simp add: compute_soc_schedule_def cumsum_def length_cumsum_from)

lemma nth_length_compute_soc_schedule:
  "compute_soc_schedule p s ! length p = last (compute_soc_schedule p s)"
proof -
  have "compute_soc_schedule p s \<noteq> []"
    using length_compute_soc_schedule [of p s] by auto
  then show ?thesis
    by (simp add: last_conv_nth length_compute_soc_schedule)
qed

text \<open>
  C2. With at least one step, the constraint that \<^verbatim>\<open>device_bounds\<close> returns for the final
  step \<open>T - 1\<close> has \<open>soc_target\<close> as both bounds, so every feasible solution has a
  cumulative SoC equal to \<open>soc_target\<close> there. Consequently, when the efficiency is 1
  and the solver returns a feasible solution, the SoC projection of the returned power
  schedule is \<open>soc_target\<close> at its final index.
\<close>

theorem terminal_soc_equals_target:
  assumes "prices \<noteq> []"
    and "conversion_efficiency \<noteq> 0"
    and "feasible_solution prices soc_start soc_max soc_min soc_target power_capacity
           conversion_efficiency s"
  shows "device_bounds prices soc_start soc_target conversion_efficiency
           (model_with prices soc_max soc_min s) (length prices - 1)
         = (soc_target,
            soc_start + (\<Sum>k\<le>length prices - 1.
                           sol_device_power_down s k / conversion_efficiency
                           + sol_device_power_up s k * conversion_efficiency),
            soc_target)
       \<and> soc_start + (\<Sum>k\<le>length prices - 1.
                           sol_device_power_down s k / conversion_efficiency
                           + sol_device_power_up s k * conversion_efficiency) = soc_target
       \<and> (conversion_efficiency = 1 \<and> results_solution res = s # ss \<longrightarrow>
            (\<exists>printed planned_costs power_schedule.
               schedule_simple_battery res prices soc_start soc_max soc_min soc_target
                 power_capacity conversion_efficiency
               = Inr (printed, planned_costs, power_schedule)
               \<and> compute_soc_schedule power_schedule soc_start ! length prices = soc_target
               \<and> last (compute_soc_schedule power_schedule soc_start) = soc_target))"
proof -
  let ?T = "length prices"
  from assms(1) have T: "Suc (?T - 1) = ?T" and lt: "?T - 1 < ?T" by simp_all
  have tuple: "device_bounds prices soc_start soc_target conversion_efficiency
           (model_with prices soc_max soc_min s) (?T - 1)
         = (soc_target, running_soc soc_start conversion_efficiency s (?T - 1), soc_target)"
    using T by (simp add: device_bounds_model_with)
  from assms(3) have "\<forall>j<?T.
          if Suc j = ?T then running_soc soc_start conversion_efficiency s j = soc_target
          else soc_min \<le> running_soc soc_start conversion_efficiency s j
             \<and> running_soc soc_start conversion_efficiency s j \<le> soc_max"
    unfolding feasible_solution_iff by blast
  with T lt have final: "running_soc soc_start conversion_efficiency s (?T - 1) = soc_target"
    by metis
  have proj: "\<exists>printed planned_costs power_schedule.
               schedule_simple_battery res prices soc_start soc_max soc_min soc_target
                 power_capacity conversion_efficiency
               = Inr (printed, planned_costs, power_schedule)
               \<and> compute_soc_schedule power_schedule soc_start ! ?T = soc_target
               \<and> last (compute_soc_schedule power_schedule soc_start) = soc_target"
    if eff: "conversion_efficiency = 1" and res: "results_solution res = s # ss"
  proof -
    let ?sched = "map (sol_ems_power s) [0 ..< ?T]"
    have run: "schedule_simple_battery res prices soc_start soc_max soc_min soc_target
                 power_capacity conversion_efficiency
               = Inr ([solver_termination_condition res],
                      objective_value prices soc_max soc_min s, ?sched)"
      using assms(2) res by (intro schedule_simple_battery_loaded) simp_all
    from assms(3) have net: "\<forall>j<?T. sol_ems_power s j
                                = sol_device_power_up s j + sol_device_power_down s j"
      unfolding feasible_solution_iff by blast
    have "sum_list ?sched = (\<Sum>j<?T. sol_ems_power s j)"
      by (rule sum_list_upt_lessThan)
    also have "\<dots> = (\<Sum>j<?T. sol_device_power_down s j / 1 + sol_device_power_up s j * 1)"
      using net by (intro sum.cong) simp_all
    also have "\<dots> = (\<Sum>j\<le>?T - 1. sol_device_power_down s j / 1 + sol_device_power_up s j * 1)"
      using T by (metis lessThan_Suc_atMost)
    finally have total: "soc_start + sum_list ?sched = soc_target"
      using final eff by (simp add: running_soc_def)
    then have l: "last (compute_soc_schedule ?sched soc_start) = soc_target"
      by (simp only: last_compute_soc_schedule)
    have "compute_soc_schedule ?sched soc_start ! ?T
            = last (compute_soc_schedule ?sched soc_start)"
      using nth_length_compute_soc_schedule [of ?sched soc_start] by simp
    with l run show ?thesis by simp
  qed
  from tuple final proj show ?thesis
    by (simp add: running_soc_def)
qed

theorem terminal_soc_equals_target_witness:
  "two_rows \<noteq> [] \<and> (1::real) \<noteq> 0
   \<and> feasible_solution two_rows 20 90 10 30 10 1 charge_five
   \<and> results_solution \<lparr>solver_termination_condition = optimal,
                          results_solution = [charge_five]\<rparr> = charge_five # []
   \<and> schedule_simple_battery
         \<lparr>solver_termination_condition = optimal, results_solution = [charge_five]\<rparr>
         two_rows 20 90 10 30 10 1 = Inr ([optimal], 55, [5, 5])
   \<and> compute_soc_schedule [5, 5] 20 ! 2 = 30
   \<and> (\<exists>printed planned_costs power_schedule.
         schedule_simple_battery
           \<lparr>solver_termination_condition = optimal, results_solution = [charge_five]\<rparr>
           two_rows 20 90 10 30 10 1 = Inr (printed, planned_costs, power_schedule)
         \<and> compute_soc_schedule power_schedule 20 ! length two_rows = 30
         \<and> last (compute_soc_schedule power_schedule 20) = 30)"
proof -
  have run: "schedule_simple_battery
         \<lparr>solver_termination_condition = optimal, results_solution = [charge_five]\<rparr>
         two_rows 20 90 10 30 10 1 = Inr ([optimal], 55, [5, 5])"
    by (simp add: schedule_simple_battery_def Let_def new_model_def load_solution_def
          cost_function_def two_rows_def charge_five_def price_up_select_def
          price_down_select_def upt_rec)
  have proj: "compute_soc_schedule [5, 5] 20 ! 2 = 30"
    by (simp add: compute_soc_schedule_def cumsum_def)
  have ne: "two_rows \<noteq> []" by (simp add: two_rows_def)
  from terminal_soc_equals_target [OF ne _ feasible_charge_five,
      where res = "\<lparr>solver_termination_condition = optimal, results_solution = [charge_five]\<rparr>"
        and ss = "[]"]
  show ?thesis using run proj ne feasible_charge_five by simp
qed

section \<open>What is returned\<close>

text \<open>
  C5. In every feasible solution the net power of each step equals the charge plus the
  discharge (the equality that \<^verbatim>\<open>device_derivative_equalities\<close> returns), and the power
  schedule that \<^verbatim>\<open>schedule_simple_battery\<close> returns is the sequence of the net-power
  values for the steps \<open>0..T-1\<close>, of length \<open>T\<close>: those of the loaded solution when
  the solver returned one, those of the model as created otherwise.
\<close>

theorem net_power_is_returned_schedule:
  "(feasible_solution prices soc_start soc_max soc_min soc_target power_capacity
        conversion_efficiency s
      \<longrightarrow> (\<forall>j<length prices.
             satisfied (device_derivative_equalities (model_with prices soc_max soc_min s) j)
             \<and> sol_ems_power s j = sol_device_power_up s j + sol_device_power_down s j))
   \<and> (prices = [] \<or> conversion_efficiency \<noteq> 0 \<longrightarrow>
        (\<exists>printed planned_costs power_schedule.
           schedule_simple_battery res prices soc_start soc_max soc_min soc_target
             power_capacity conversion_efficiency
           = Inr (printed, planned_costs, power_schedule)
           \<and> length power_schedule = length prices
           \<and> (\<forall>s' ss. results_solution res = s' # ss \<longrightarrow>
                 power_schedule = map (sol_ems_power s') [0 ..< length prices])
           \<and> (results_solution res = [] \<longrightarrow>
                 power_schedule = map (ems_power (new_model prices soc_max soc_min))
                                    [0 ..< length prices])))"
proof (intro conjI impI)
  assume "feasible_solution prices soc_start soc_max soc_min soc_target power_capacity
        conversion_efficiency s"
  then have "\<forall>j<length prices. sol_ems_power s j
                = sol_device_power_up s j + sol_device_power_down s j"
    unfolding feasible_solution_iff by blast
  then show "\<forall>j<length prices.
             satisfied (device_derivative_equalities (model_with prices soc_max soc_min s) j)
             \<and> sol_ems_power s j = sol_device_power_up s j + sol_device_power_down s j"
    by (simp add: device_derivative_equalities_def model_with_simps)
next
  assume built: "prices = [] \<or> conversion_efficiency \<noteq> 0"
  show "\<exists>printed planned_costs power_schedule.
           schedule_simple_battery res prices soc_start soc_max soc_min soc_target
             power_capacity conversion_efficiency
           = Inr (printed, planned_costs, power_schedule)
           \<and> length power_schedule = length prices
           \<and> (\<forall>s' ss. results_solution res = s' # ss \<longrightarrow>
                 power_schedule = map (sol_ems_power s') [0 ..< length prices])
           \<and> (results_solution res = [] \<longrightarrow>
                 power_schedule = map (ems_power (new_model prices soc_max soc_min))
                                    [0 ..< length prices])"
  proof (cases "results_solution res")
    case Nil
    with schedule_simple_battery_not_loaded [OF built Nil] show ?thesis by simp
  next
    case (Cons s' ss)
    with schedule_simple_battery_loaded [OF built Cons] show ?thesis by simp
  qed
qed

theorem net_power_is_returned_schedule_witness:
  "feasible_solution two_rows 20 90 10 30 10 1 charge_five
   \<and> (two_rows = [] \<or> (1::real) \<noteq> 0)
   \<and> sol_ems_power charge_five 1 = sol_device_power_up charge_five 1 + sol_device_power_down charge_five 1
   \<and> (\<exists>printed planned_costs.
         schedule_simple_battery
           \<lparr>solver_termination_condition = optimal, results_solution = [charge_five]\<rparr>
           two_rows 20 90 10 30 10 1
         = Inr (printed, planned_costs, [5, 5]))"
proof -
  have len: "length two_rows = 2" by (simp add: two_rows_def)
  have sched: "map (sol_ems_power charge_five) [0 ..< 2] = [5, 5]"
    by (simp add: charge_five_def upt_rec)
  from net_power_is_returned_schedule [where prices = two_rows and soc_start = 20
      and soc_max = 90 and soc_min = 10 and soc_target = 30 and power_capacity = 10
      and conversion_efficiency = 1 and s = charge_five
      and res = "\<lparr>solver_termination_condition = optimal, results_solution = [charge_five]\<rparr>"]
  show ?thesis using feasible_charge_five len sched by auto
qed

text \<open>
  C9. When the solver returns no solution candidate, \<^verbatim>\<open>schedule_simple_battery\<close> prints
  the termination condition, raises nothing, loads nothing, and returns the objective
  value and the net-power values read from the model as it was created.
\<close>

theorem no_solution_is_not_an_error:
  assumes "prices = [] \<or> conversion_efficiency \<noteq> 0"
    and "results_solution res = []"
  shows "\<exists>planned_costs planned_device_power.
           schedule_simple_battery res prices soc_start soc_max soc_min soc_target
             power_capacity conversion_efficiency
           = Inr ([solver_termination_condition res], planned_costs, planned_device_power)
           \<and> planned_costs = cost_function (new_model prices soc_max soc_min)
           \<and> planned_device_power
               = map (ems_power (new_model prices soc_max soc_min))
                   (model_j (new_model prices soc_max soc_min))"
  using schedule_simple_battery_not_loaded [OF assms]
  by (simp add: new_model_def)

theorem no_solution_is_not_an_error_witness:
  "(one_row = [] \<or> (1::real) \<noteq> 0)
   \<and> results_solution \<lparr>solver_termination_condition = infeasible, results_solution = []\<rparr> = []
   \<and> (\<exists>planned_costs planned_device_power.
         schedule_simple_battery
           \<lparr>solver_termination_condition = infeasible, results_solution = []\<rparr>
           one_row 20 90 10 1000 10 1
         = Inr ([infeasible], planned_costs, planned_device_power))"
  using no_solution_is_not_an_error [where prices = one_row and conversion_efficiency = 1
      and res = "\<lparr>solver_termination_condition = infeasible, results_solution = []\<rparr>"
      and soc_start = 20 and soc_max = 90 and soc_min = 10 and soc_target = 1000
      and power_capacity = 10]
  by auto

text \<open>
  C10. When the solver returns no solution candidate, the returned cost is 0 and the
  returned power schedule is \<open>T\<close> zeros, the initial values of the variables; the
  returned pair is the one returned when the solver reports the all-zero solution.
\<close>

theorem no_solution_returns_zero_schedule:
  assumes "prices = [] \<or> conversion_efficiency \<noteq> 0"
    and "results_solution res = []"
  shows "schedule_simple_battery res prices soc_start soc_max soc_min soc_target
           power_capacity conversion_efficiency
         = Inr ([solver_termination_condition res], 0, replicate (length prices) 0)
       \<and> schedule_simple_battery
           \<lparr>solver_termination_condition = optimal, results_solution = [zero_solution]\<rparr>
           prices soc_start soc_max soc_min soc_target power_capacity conversion_efficiency
         = Inr ([optimal], 0, replicate (length prices) 0)"
proof
  have "map (ems_power (new_model prices soc_max soc_min)) [0 ..< length prices]
          = replicate (length prices) 0"
    by (simp add: new_model_def map_zero_replicate)
  with schedule_simple_battery_not_loaded [OF assms] cost_function_new_model
  show "schedule_simple_battery res prices soc_start soc_max soc_min soc_target
           power_capacity conversion_efficiency
         = Inr ([solver_termination_condition res], 0, replicate (length prices) 0)"
    by simp
next
  have obj: "objective_value prices soc_max soc_min zero_solution = 0"
    by (simp add: objective_value_sum zero_solution_def)
  have sched: "map (sol_ems_power zero_solution) [0 ..< length prices]
          = replicate (length prices) 0"
    by (simp add: zero_solution_def map_zero_replicate)
  from schedule_simple_battery_loaded [OF assms(1),
      where res = "\<lparr>solver_termination_condition = optimal, results_solution = [zero_solution]\<rparr>"
        and s = zero_solution and ss = "[]"] obj sched
  show "schedule_simple_battery
           \<lparr>solver_termination_condition = optimal, results_solution = [zero_solution]\<rparr>
           prices soc_start soc_max soc_min soc_target power_capacity conversion_efficiency
         = Inr ([optimal], 0, replicate (length prices) 0)"
    by simp
qed

theorem no_solution_returns_zero_schedule_witness:
  "(one_row = [] \<or> (1::real) \<noteq> 0)
   \<and> results_solution \<lparr>solver_termination_condition = infeasible, results_solution = []\<rparr> = []
   \<and> schedule_simple_battery
         \<lparr>solver_termination_condition = infeasible, results_solution = []\<rparr>
         one_row 20 90 10 1000 10 1
       = Inr ([infeasible], 0, [0])"
  using no_solution_returns_zero_schedule [where prices = one_row and conversion_efficiency = 1
      and res = "\<lparr>solver_termination_condition = infeasible, results_solution = []\<rparr>"
      and soc_start = 20 and soc_max = 90 and soc_min = 10 and soc_target = 1000
      and power_capacity = 10]
  by (simp add: one_row_def)

section \<open>Charge and discharge in the same step\<close>

lemma feasible_solution_one_step:
  "feasible_solution [r] soc_start soc_max soc_min soc_target power_capacity conversion_efficiency s
   \<longleftrightarrow> sol_device_power_down s 0 \<le> 0 \<and> 0 \<le> sol_device_power_up s 0
       \<and> - power_capacity \<le> sol_ems_power s 0 \<and> sol_ems_power s 0 \<le> power_capacity
       \<and> sol_ems_power s 0 = sol_device_power_up s 0 + sol_device_power_down s 0
       \<and> soc_start + (sol_device_power_down s 0 / conversion_efficiency
                       + sol_device_power_up s 0 * conversion_efficiency) = soc_target"
  by (simp add: feasible_solution_iff running_soc_def)

lemma objective_value_one_step:
  "objective_value [r] soc_max soc_min s
     = sol_device_power_down s 0 * production r + sol_device_power_up s 0 * consumption r"
  by (simp add: objective_value_sum)

text \<open>
  C3, on the code. One step, \<open>soc_start = 20\<close>, \<open>soc_target = 30\<close>, capacity 10,
  efficiency 1: charging 15 while discharging 5 satisfies every constraint of the
  constructed model, since the constraint named \<^verbatim>\<open>device_power_up_bounds\<close> is built from
  \<^verbatim>\<open>ems_derivative_bounds\<close> and bounds the net power only. The charge exceeds the capacity.
\<close>

theorem charge_above_capacity_is_feasible:
  "feasible_solution one_row 20 90 10 30 10 1 (both_ways 15 5)
   \<and> sol_device_power_up (both_ways 15 5) 0 = 15
   \<and> sol_device_power_down (both_ways 15 5) 0 = - 5
   \<and> sol_ems_power (both_ways 15 5) 0 = 10
   \<and> \<not> sol_device_power_up (both_ways 15 5) 0 \<le> 10"
  by (simp add: one_row_def feasible_solution_one_step both_ways_def)

text \<open>
  C7, on the code. One step with consumption price 1 and production price 2,
  \<open>soc_start = soc_target = 20\<close>, capacity 0, efficiency 1: charging 1 while discharging
  1 is feasible, has zero net power and costs \<open>- 1\<close>, below the cost 0 of the all-zero
  solution.
\<close>

theorem zero_capacity_negative_cost_is_feasible:
  "feasible_solution cheap_buy_row 20 90 10 20 0 1 (both_ways 1 1)
   \<and> sol_ems_power (both_ways 1 1) 0 = 0
   \<and> objective_value cheap_buy_row 90 10 (both_ways 1 1) = - 1
   \<and> feasible_solution cheap_buy_row 20 90 10 20 0 1 zero_solution
   \<and> objective_value cheap_buy_row 90 10 zero_solution = 0"
  by (simp add: cheap_buy_row_def feasible_solution_one_step objective_value_one_step
        both_ways_def zero_solution_def)

text \<open>
  At that input no solution is optimal: the cost is unbounded below.
\<close>

lemma zero_capacity_no_optimum:
  "\<not> (\<exists>s. optimal_solution cheap_buy_row 20 90 10 20 0 1 s)"
proof
  assume "\<exists>s. optimal_solution cheap_buy_row 20 90 10 20 0 1 s"
  then obtain s where opt: "optimal_solution cheap_buy_row 20 90 10 20 0 1 s" ..
  let ?u = "sol_device_power_up s 0"
  from opt have feas: "feasible_solution cheap_buy_row 20 90 10 20 0 1 s"
    by (simp add: optimal_solution_def)
  then have u: "0 \<le> ?u" and d: "sol_device_power_down s 0 = - ?u"
    by (simp_all add: cheap_buy_row_def feasible_solution_one_step)
  have cost: "objective_value cheap_buy_row 90 10 s = - ?u"
    using d by (simp add: cheap_buy_row_def objective_value_one_step)
  have feas': "feasible_solution cheap_buy_row 20 90 10 20 0 1 (both_ways (?u + 1) (?u + 1))"
    using u by (simp add: cheap_buy_row_def feasible_solution_one_step both_ways_def)
  have cost': "objective_value cheap_buy_row 90 10 (both_ways (?u + 1) (?u + 1)) = - (?u + 1)"
    by (simp add: cheap_buy_row_def objective_value_one_step both_ways_def)
  from opt feas' have "objective_value cheap_buy_row 90 10 s
      \<le> objective_value cheap_buy_row 90 10 (both_ways (?u + 1) (?u + 1))"
    by (simp add: optimal_solution_def costs_sense_def)
  with cost cost' show False by simp
qed

text \<open>
  What does hold at capacity 0: the net power of every feasible solution is zero; with
  efficiency 1 and at least one step there is no feasible solution unless
  \<open>soc_start = soc_target\<close>; and the all-zero solution is optimal, at cost 0, when the
  start is within the SoC bounds and no production price exceeds the consumption price of
  its step.
\<close>

lemma zero_capacity_zero_net_power:
  assumes "feasible_solution prices soc_start soc_max soc_min soc_target 0 conversion_efficiency s"
    and "j < length prices"
  shows "sol_ems_power s j = 0"
proof -
  from assms(1) have "\<forall>j<length prices. - 0 \<le> sol_ems_power s j \<and> sol_ems_power s j \<le> 0"
    unfolding feasible_solution_iff by blast
  with assms(2) show ?thesis by fastforce
qed

lemma zero_capacity_running_soc:
  assumes "feasible_solution prices soc_start soc_max soc_min soc_target 0 1 s"
    and "j < length prices"
  shows "running_soc soc_start 1 s j = soc_start"
proof -
  from assms(1) have net: "\<forall>j<length prices. sol_ems_power s j
                                = sol_device_power_up s j + sol_device_power_down s j"
    unfolding feasible_solution_iff by blast
  have "(\<Sum>k\<le>j. sol_device_power_down s k / 1 + sol_device_power_up s k * 1) = (\<Sum>k\<le>j. 0)"
  proof (rule sum.cong)
    fix k assume "k \<in> {..j}"
    with assms(2) have k: "k < length prices" by simp
    from net k have "sol_ems_power s k = sol_device_power_up s k + sol_device_power_down s k"
      by blast
    with zero_capacity_zero_net_power [OF assms(1) k]
    show "sol_device_power_down s k / 1 + sol_device_power_up s k * 1 = 0" by simp
  qed simp
  then show ?thesis by (simp add: running_soc_def)
qed

lemma zero_capacity_infeasible:
  assumes "prices \<noteq> []" and "soc_start \<noteq> soc_target"
  shows "\<not> feasible_solution prices soc_start soc_max soc_min soc_target 0 1 s"
proof
  assume feas: "feasible_solution prices soc_start soc_max soc_min soc_target 0 1 s"
  from assms(1) have T: "Suc (length prices - 1) = length prices"
    and lt: "length prices - 1 < length prices" by simp_all
  from feas have "\<forall>j<length prices.
          if Suc j = length prices then running_soc soc_start 1 s j = soc_target
          else soc_min \<le> running_soc soc_start 1 s j \<and> running_soc soc_start 1 s j \<le> soc_max"
    unfolding feasible_solution_iff by blast
  with T lt have "running_soc soc_start 1 s (length prices - 1) = soc_target" by metis
  with zero_capacity_running_soc [OF feas lt] assms(2) show False by simp
qed

lemma feasible_zero_solution:
  assumes "soc_min \<le> soc_start" and "soc_start \<le> soc_max" and "0 \<le> power_capacity"
  shows "feasible_solution prices soc_start soc_max soc_min soc_start power_capacity
           conversion_efficiency zero_solution"
  using assms by (simp add: feasible_solution_iff running_soc_def zero_solution_def)

lemma zero_capacity_zero_optimal:
  assumes "soc_min \<le> soc_start" and "soc_start \<le> soc_max"
    and sane: "\<forall>j<length prices. production (prices ! j) \<le> consumption (prices ! j)"
  shows "optimal_solution prices soc_start soc_max soc_min soc_start 0 1 zero_solution
         \<and> objective_value prices soc_max soc_min zero_solution = 0"
proof -
  have zero: "objective_value prices soc_max soc_min zero_solution = 0"
    by (simp add: objective_value_sum zero_solution_def)
  have "0 \<le> objective_value prices soc_max soc_min s'"
    if feas: "feasible_solution prices soc_start soc_max soc_min soc_start 0 1 s'" for s'
  proof -
    from feas have dom: "\<forall>j<length prices. sol_device_power_down s' j \<le> 0
                             \<and> 0 \<le> sol_device_power_up s' j"
      and net: "\<forall>j<length prices. sol_ems_power s' j
                                = sol_device_power_up s' j + sol_device_power_down s' j"
      unfolding feasible_solution_iff by blast+
    have "0 \<le> (\<Sum>j<length prices. sol_device_power_down s' j * production (prices ! j)
                         + sol_device_power_up s' j * consumption (prices ! j))"
    proof (rule sum_nonneg)
      fix j assume "j \<in> {..<length prices}"
      then have j: "j < length prices" by simp
      from net j zero_capacity_zero_net_power [OF feas j]
      have d: "sol_device_power_down s' j = - sol_device_power_up s' j" by simp
      from dom j have u: "0 \<le> sol_device_power_up s' j" by blast
      from sane j have "production (prices ! j) \<le> consumption (prices ! j)" by blast
      with u have "sol_device_power_up s' j * production (prices ! j)
                     \<le> sol_device_power_up s' j * consumption (prices ! j)"
        by (simp add: mult_left_mono)
      with d show "0 \<le> sol_device_power_down s' j * production (prices ! j)
                         + sol_device_power_up s' j * consumption (prices ! j)"
        by simp
    qed
    then show ?thesis by (simp only: objective_value_sum)
  qed
  with zero feasible_zero_solution [OF assms(1,2), of 0 prices 1] show ?thesis
    by (simp add: optimal_solution_def costs_sense_def)
qed

lemma length_decrease_sell: "length (decrease_sell delta prices) = length prices"
  by (simp add: decrease_sell_def)

lemma feasible_solution_decrease_sell:
  "feasible_solution (decrease_sell delta prices) soc_start soc_max soc_min soc_target
     power_capacity conversion_efficiency s
   = feasible_solution prices soc_start soc_max soc_min soc_target
     power_capacity conversion_efficiency s"
  by (simp only: feasible_solution_iff length_decrease_sell)

lemma objective_value_decrease_sell:
  "objective_value (decrease_sell delta prices) soc_max soc_min s
     = objective_value prices soc_max soc_min s
       - delta * (\<Sum>j<length prices. sol_device_power_down s j)"
proof -
  have "(\<Sum>j<length prices.
            sol_device_power_down s j * production (decrease_sell delta prices ! j)
            + sol_device_power_up s j * consumption (decrease_sell delta prices ! j))
        = (\<Sum>j<length prices.
            (sol_device_power_down s j * production (prices ! j)
             + sol_device_power_up s j * consumption (prices ! j))
            - delta * sol_device_power_down s j)"
    by (rule sum.cong) (simp_all add: decrease_sell_def algebra_simps)
  then show ?thesis
    by (simp only: objective_value_sum length_decrease_sell sum_subtractf sum_distrib_left)
qed

text \<open>
  C8. When every production (sell) price is lowered by the same \<open>delta > 0\<close> and the
  consumption (buy) prices are kept, the optimal cost of the constructed model does not
  decrease. The feasible solutions are the same for both price frames, no feasible
  solution costs less under the lowered prices than under the original ones, and so the
  cost of an optimal solution for the lowered prices is at least the cost of an optimal
  solution for the original prices.
\<close>

theorem lower_sell_price_never_lowers_cost:
  assumes "0 < delta"
  shows "(feasible_solution (decrease_sell delta prices) soc_start soc_max soc_min soc_target
            power_capacity conversion_efficiency s
          = feasible_solution prices soc_start soc_max soc_min soc_target
              power_capacity conversion_efficiency s)
       \<and> (feasible_solution prices soc_start soc_max soc_min soc_target
             power_capacity conversion_efficiency s
           \<longrightarrow> objective_value prices soc_max soc_min s
               \<le> objective_value (decrease_sell delta prices) soc_max soc_min s)
       \<and> (optimal_solution prices soc_start soc_max soc_min soc_target power_capacity
             conversion_efficiency s
           \<and> optimal_solution (decrease_sell delta prices) soc_start soc_max soc_min
               soc_target power_capacity conversion_efficiency s'
           \<longrightarrow> objective_value prices soc_max soc_min s
               \<le> objective_value (decrease_sell delta prices) soc_max soc_min s')"
proof -
  have pointwise: "objective_value prices soc_max soc_min t
                   \<le> objective_value (decrease_sell delta prices) soc_max soc_min t"
    if feas: "feasible_solution prices soc_start soc_max soc_min soc_target
                power_capacity conversion_efficiency t" for t
  proof -
    from feas have "\<forall>j<length prices. sol_device_power_down t j \<le> 0"
      unfolding feasible_solution_iff by blast
    then have "(\<Sum>j<length prices. sol_device_power_down t j) \<le> 0"
      by (intro sum_nonpos) simp
    with assms have "delta * (\<Sum>j<length prices. sol_device_power_down t j) \<le> 0"
      by (simp add: mult_le_0_iff)
    then show ?thesis by (simp add: objective_value_decrease_sell)
  qed
  have optima: "objective_value prices soc_max soc_min s
                \<le> objective_value (decrease_sell delta prices) soc_max soc_min s'"
    if a: "optimal_solution prices soc_start soc_max soc_min soc_target power_capacity
             conversion_efficiency s"
      and b: "optimal_solution (decrease_sell delta prices) soc_start soc_max soc_min
             soc_target power_capacity conversion_efficiency s'"
  proof -
    from b have "feasible_solution (decrease_sell delta prices) soc_start soc_max soc_min
        soc_target power_capacity conversion_efficiency s'"
      by (simp add: optimal_solution_def)
    then have feas: "feasible_solution prices soc_start soc_max soc_min soc_target
        power_capacity conversion_efficiency s'"
      by (simp only: feasible_solution_decrease_sell)
    with a have "objective_value prices soc_max soc_min s
                   \<le> objective_value prices soc_max soc_min s'"
      by (simp add: optimal_solution_def costs_sense_def)
    with pointwise [OF feas] show ?thesis by simp
  qed
  from pointwise optima show ?thesis
    by (simp only: feasible_solution_decrease_sell) blast
qed

text \<open>
  One step at consumption price 8, from SoC 30 down to the target 20 with capacity 10:
  every feasible solution discharges at least 10, so the sell price enters the cost.
  Discharging 10 and charging nothing is optimal, at cost \<open>- 70\<close> for the production
  price 7 and at cost \<open>- 60\<close> for the production price 6.
\<close>

lemma optimal_one_step_discharge_ten:
  assumes "p = 7 \<or> p = 6"
  shows "optimal_solution [\<lparr>consumption = 8, production = p\<rparr>] 30 90 10 20 10 1 discharge_ten"
proof -
  have "- 10 * p \<le> objective_value [\<lparr>consumption = 8, production = p\<rparr>] 90 10 s'"
    if "feasible_solution [\<lparr>consumption = 8, production = p\<rparr>] 30 90 10 20 10 1 s'" for s'
    using that assms by (auto simp add: feasible_solution_one_step objective_value_one_step)
  moreover have "objective_value [\<lparr>consumption = 8, production = p\<rparr>] 90 10 discharge_ten
                   = - 10 * p"
    by (simp add: objective_value_one_step discharge_ten_def)
  moreover have "feasible_solution [\<lparr>consumption = 8, production = p\<rparr>] 30 90 10 20 10 1
                   discharge_ten"
    by (simp add: feasible_solution_one_step discharge_ten_def)
  ultimately show ?thesis by (simp add: optimal_solution_def costs_sense_def)
qed

theorem lower_sell_price_never_lowers_cost_witness:
  "(0::real) < 1
   \<and> feasible_solution one_row 30 90 10 20 10 1 discharge_ten
   \<and> feasible_solution (decrease_sell 1 one_row) 30 90 10 20 10 1 discharge_ten
   \<and> optimal_solution one_row 30 90 10 20 10 1 discharge_ten
   \<and> optimal_solution (decrease_sell 1 one_row) 30 90 10 20 10 1 discharge_ten
   \<and> sol_device_power_down discharge_ten 0 = - 10
   \<and> objective_value one_row 90 10 discharge_ten = - 70
   \<and> objective_value (decrease_sell 1 one_row) 90 10 discharge_ten = - 60
   \<and> objective_value one_row 90 10 discharge_ten
       \<le> objective_value (decrease_sell 1 one_row) 90 10 discharge_ten"
proof -
  have a: "optimal_solution one_row 30 90 10 20 10 1 discharge_ten"
    using optimal_one_step_discharge_ten [of 7] by (simp add: one_row_def)
  have b: "optimal_solution (decrease_sell 1 one_row) 30 90 10 20 10 1 discharge_ten"
    using optimal_one_step_discharge_ten [of 6] by (simp add: one_row_def decrease_sell_def)
  have f: "feasible_solution one_row 30 90 10 20 10 1 discharge_ten"
    using a by (simp add: optimal_solution_def)
  have c: "objective_value one_row 90 10 discharge_ten = - 70"
    by (simp add: one_row_def objective_value_one_step discharge_ten_def)
  have d: "objective_value (decrease_sell 1 one_row) 90 10 discharge_ten = - 60"
    by (simp add: one_row_def decrease_sell_def objective_value_one_step discharge_ten_def)
  have e: "sol_device_power_down discharge_ten 0 = - 10"
    by (simp add: discharge_ten_def)
  have pos: "(0::real) < 1" by simp
  from lower_sell_price_never_lowers_cost [OF pos, where prices = one_row and soc_start = 30
      and soc_max = 90 and soc_min = 10 and soc_target = 20 and power_capacity = 10
      and conversion_efficiency = 1 and s = discharge_ten and s' = discharge_ten]
    a b c d e f
  show ?thesis by simp
qed

end
